theory Spec2Isabelle
  imports Main
begin

section \<open>JavaScript strings\<close>

text \<open>
  A JavaScript string is modelled as a \<^typ>\<open>string\<close>: one \<^typ>\<open>char\<close> per code unit,
  for code units below 256. Of the code points that \<^verbatim>\<open>String.prototype.trim\<close> and the
  regular-expression class \<^verbatim>\<open>\s\<close> treat as white space, those in that range are
  U+0009 to U+000D, U+0020 and U+00A0.
\<close>

definition isSpace :: "char \<Rightarrow> bool" where
  "isSpace c = (c \<in> set [CHR 0x09, CHR 0x0A, CHR 0x0B, CHR 0x0C, CHR 0x0D, CHR 0x20, CHR 0xA0])"

text \<open>\<^verbatim>\<open>s.trim()\<close>: white space removed from both ends.\<close>

definition trim :: "string \<Rightarrow> string" where
  "trim s = rev (dropWhile isSpace (rev (dropWhile isSpace s)))"

text \<open>\<^verbatim>\<open>s.startsWith(p)\<close>.\<close>

fun startsWith :: "string \<Rightarrow> string \<Rightarrow> bool" where
  "startsWith s [] = True"
| "startsWith [] (p # ps) = False"
| "startsWith (c # cs) (p # ps) = (c = p \<and> startsWith cs ps)"

text \<open>\<^verbatim>\<open>s.includes(p)\<close>: \<open>p\<close> occurs in \<open>s\<close> at some position.\<close>

fun includesStr :: "string \<Rightarrow> string \<Rightarrow> bool" where
  "includesStr [] p = (p = [])"
| "includesStr (c # cs) p = (startsWith (c # cs) p \<or> includesStr cs p)"

text \<open>\<^verbatim>\<open>xs.join(sep)\<close>.\<close>

fun join :: "string \<Rightarrow> string list \<Rightarrow> string" where
  "join sep [] = []"
| "join sep [x] = x"
| "join sep (x # y # ys) = x @ sep @ join sep (y # ys)"

section \<open>Fix button (src/agents/tools/expanso-fix-button.ts)\<close>

definition EXPANSO_FIX_COMPONENT_ID :: string where
  "EXPANSO_FIX_COMPONENT_ID = ''expanso-fix''"

definition EXPANSO_FIX_CALLBACK_DATA :: string where
  "EXPANSO_FIX_CALLBACK_DATA = ''expanso_fix''"

text \<open>
  The label is the wrench emoji U+1F527 followed by \<^verbatim>\<open> Fix\<close>. No function below
  inspects it; it is carried as the UTF-8 encoding of the source literal.
\<close>

definition EXPANSO_FIX_BUTTON_LABEL :: string where
  "EXPANSO_FIX_BUTTON_LABEL = [CHR 0xF0, CHR 0x9F, CHR 0x94, CHR 0xA7] @ '' Fix''"

definition isExpansoFixDiscordEvent :: "string \<Rightarrow> bool" where
  "isExpansoFixDiscordEvent eventText =
     includesStr eventText (''component: '' @ EXPANSO_FIX_COMPONENT_ID @ '' clicked'')"

text \<open>
  One button of a \<^verbatim>\<open>ButtonRow\<close> (declared in \<^verbatim>\<open>telegram/model-buttons.ts\<close>); the field
  \<^verbatim>\<open>text\<close> is named \<open>text_of\<close> here.
\<close>

record Button =
  text_of :: string
  callback_data :: string

type_synonym ButtonRow = "Button list"

definition buildExpansoFixTelegramButton :: ButtonRow where
  "buildExpansoFixTelegramButton =
     [\<lparr>text_of = EXPANSO_FIX_BUTTON_LABEL, callback_data = EXPANSO_FIX_CALLBACK_DATA\<rparr>]"

definition isExpansoFixTelegramCallback :: "string \<Rightarrow> bool" where
  "isExpansoFixTelegramCallback data = (trim data = EXPANSO_FIX_CALLBACK_DATA)"

datatype Platform = Discord | Telegram

definition buildExpansoFixEventText :: "Platform \<Rightarrow> string \<Rightarrow> string \<Rightarrow> string" where
  "buildExpansoFixEventText platform username userId =
     ''['' @ (if platform = Discord then ''Discord'' else ''Telegram'') @ '' component: ''
       @ EXPANSO_FIX_COMPONENT_ID @ '' clicked by '' @ username @ '' ('' @ userId @ '')]''"

section \<open>Sandbox findings (src/security/expanso-audit.ts)\<close>

datatype Severity = Info | Warn | Critical

text \<open>
  \<^verbatim>\<open>SecurityAuditFinding\<close> is declared in \<^verbatim>\<open>audit-extra.ts\<close>; the fields are those
  the object literals of \<^verbatim>\<open>collectExpansoSandboxFindings\<close> set.
\<close>

record SecurityAuditFinding =
  checkId :: string
  severity :: Severity
  title :: string
  detail :: string
  remediation :: "string option"

text \<open>Every field of the options is optional: \<open>None\<close> is \<^verbatim>\<open>undefined\<close>.\<close>

record ExpansoSandboxOptions =
  dockerEnabled :: "bool option"
  dockerImage :: "string option"
  networkMode :: "string option"
  readOnlyRootfs :: "bool option"
  capsDropped :: "bool option"
  nonRootUser :: "bool option"

definition EXPANSO_SANDBOX_ISOLATION_FLAGS :: "string list" where
  "EXPANSO_SANDBOX_ISOLATION_FLAGS =
     [''--network none'', ''--read-only'', ''--tmpfs /tmp'',
      ''--security-opt no-new-privileges'', ''--cap-drop ALL'', ''--user 65534:65534'']"

text \<open>Truthiness of an optional boolean: \<^verbatim>\<open>undefined\<close> and \<^verbatim>\<open>false\<close> are falsy.\<close>

definition truthyB :: "bool option \<Rightarrow> bool" where
  "truthyB b = (b = Some True)"

definition dockerDisabledFinding :: SecurityAuditFinding where
  \<open>dockerDisabledFinding =
     \<lparr>checkId = ''expanso.sandbox.docker_disabled'',
      severity = Warn,
      title = ''Expanso validation sandbox is not using Docker isolation'',
      detail =
        ''The Expanso pipeline validator is executing the `expanso validate` binary directly '' @
        ''on the host, without Docker isolation. Malformed or adversarial pipeline YAML could '' @
        ''interact with host resources if the binary has vulnerabilities.'',
      remediation = Some
        (''Enable Docker isolation by wrapping the binary in a container with: '' @
         join '' '' EXPANSO_SANDBOX_ISOLATION_FLAGS @
         ''. See EXPANSO_SANDBOX_ISOLATION_FLAGS for the full recommended flag set.'')\<rparr>\<close>

definition networkFinding :: "string option \<Rightarrow> SecurityAuditFinding" where
  \<open>networkFinding mode =
     (let actual = (case mode of None \<Rightarrow> ''bridge (default)'' | Some m \<Rightarrow> m) in
      \<lparr>checkId = ''expanso.sandbox.network_not_isolated'',
       severity = Critical,
       title = ''Expanso sandbox container has network access'',
       detail =
         ''Docker network mode is '' @ [CHR 0x22] @ actual @ [CHR 0x22] @
         ''; the validation sandbox can reach the host network. '' @
         ''A compromised binary or adversarial pipeline YAML could exfiltrate data or initiate '' @
         ''outbound connections.'',
       remediation = Some ''Set Docker --network=none on the validation container.''\<rparr>)\<close>

definition rootfsFinding :: SecurityAuditFinding where
  \<open>rootfsFinding =
     \<lparr>checkId = ''expanso.sandbox.no_readonly_rootfs'',
      severity = Critical,
      title = ''Expanso sandbox container root filesystem is writable'',
      detail =
        ''Docker --read-only is not set; the validation container'' @ [CHR 0x27] @
        ''s root filesystem is writable. '' @
        ''A compromised binary could modify container files or stage a persistence mechanism.'',
      remediation = Some ''Add --read-only and --tmpfs /tmp to the docker run command.''\<rparr>\<close>

definition capsFinding :: SecurityAuditFinding where
  \<open>capsFinding =
     \<lparr>checkId = ''expanso.sandbox.caps_not_dropped'',
      severity = Warn,
      title = ''Expanso sandbox container retains Linux capabilities'',
      detail =
        ''Docker --cap-drop ALL is not set; the validation container retains default Linux '' @
        ''capabilities, which increases the risk of privilege escalation.'',
      remediation = Some ''Add --cap-drop ALL to the docker run command.''\<rparr>\<close>

definition rootUserFinding :: SecurityAuditFinding where
  \<open>rootUserFinding =
     \<lparr>checkId = ''expanso.sandbox.root_user'',
      severity = Warn,
      title = ''Expanso sandbox container runs as root'',
      detail =
        ''The validation container is running as root (UID 0). Even with other mitigations, '' @
        ''running as root inside the container increases blast radius if the binary is exploited.'',
      remediation =
        Some ''Add --user 65534:65534 (nobody:nogroup) to the docker run command.''\<rparr>\<close>

text \<open>
  The image is named in the detail when \<^verbatim>\<open>opts.dockerImage\<close> is truthy, that is, given
  and not the empty string.
\<close>

definition isolatedFinding :: "string option \<Rightarrow> SecurityAuditFinding" where
  \<open>isolatedFinding img =
     (let image = (case img of
                     None \<Rightarrow> []
                   | Some v \<Rightarrow> if v \<noteq> [] then '' ('' @ v @ '')'' else []) in
      \<lparr>checkId = ''expanso.sandbox.isolated'',
       severity = Info,
       title = ''Expanso sandbox is correctly isolated'',
       detail =
         ''Expanso validation sandbox'' @ image @
         '' is running with --network none, --read-only, '' @
         ''--cap-drop ALL, and a non-root user. Host network and filesystem are protected.'',
       remediation = None\<rparr>)\<close>

text \<open>
  The function pushes onto \<^verbatim>\<open>findings\<close> in order; the model threads the array through
  the same sequence of conditional pushes. The argument itself is optional.
\<close>

definition collectExpansoSandboxFindings ::
    "ExpansoSandboxOptions option \<Rightarrow> SecurityAuditFinding list" where
  "collectExpansoSandboxFindings opts =
     (case opts of
        None \<Rightarrow> [dockerDisabledFinding]
      | Some o' \<Rightarrow>
          if \<not> truthyB (dockerEnabled o') then [dockerDisabledFinding]
          else
            let f0 = [];
                f1 = (if networkMode o' \<noteq> Some ''none''
                      then f0 @ [networkFinding (networkMode o')] else f0);
                f2 = (if \<not> truthyB (readOnlyRootfs o') then f1 @ [rootfsFinding] else f1);
                f3 = (if \<not> truthyB (capsDropped o') then f2 @ [capsFinding] else f2);
                f4 = (if \<not> truthyB (nonRootUser o') then f3 @ [rootUserFinding] else f3);
                hasIssues = (length f4 > 0)
            in if \<not> hasIssues then f4 @ [isolatedFinding (dockerImage o')] else f4)"

section \<open>Diagnostic line parser (expanso-validator.ts)\<close>

text \<open>
  The file \<^verbatim>\<open>expanso-validator.ts\<close>, which defines \<^verbatim>\<open>parseBinaryOutput\<close>, is not
  among the sources; only its test file is. The definitions of this section follow the
  algorithm of section 4.1 of the specification, step by step.
\<close>

text \<open>
  Modelled from the spec: the Diagnostic of section 3, a message with an optional code and
  an optional location.
\<close>

record Diagnostic =
  message :: string
  code :: "string option"
  location :: "string option"

text \<open>Modelled from the spec: step 5, the digits \<^verbatim>\<open>0\<close> to \<^verbatim>\<open>9\<close>.\<close>

definition isDigit :: "char \<Rightarrow> bool" where
  "isDigit c = (c \<in> set ''0123456789'')"

text \<open>Modelled from the spec: step 5, the uppercase ASCII letters.\<close>

definition isUpper :: "char \<Rightarrow> bool" where
  "isUpper c = (c \<in> set ''ABCDEFGHIJKLMNOPQRSTUVWXYZ'')"

text \<open>
  Modelled from the spec: step 1, "split input into individual lines; discard no content
  during split". The separator is the line feed; \<open>splitLines\<close> never returns the empty list.
\<close>

fun splitLines :: "string \<Rightarrow> string list" where
  "splitLines [] = [[]]"
| "splitLines (c # cs) =
     (if c = CHR 0x0A then [] # splitLines cs
      else (case splitLines cs of [] \<Rightarrow> [[c]] | l # ls \<Rightarrow> (c # l) # ls))"

text \<open>
  Modelled from the spec: step 3, the noise markers \<^verbatim>\<open>INFO\<close> and \<^verbatim>\<open>DEBUG\<close>,
  case-sensitive, "optionally followed by a colon or space": what follows the marker does
  not decide.
\<close>

definition isNoise :: "string \<Rightarrow> bool" where
  "isNoise line = (startsWith line ''INFO'' \<or> startsWith line ''DEBUG'')"

text \<open>
  Modelled from the spec: step 4, one leading severity marker, tried in the order
  \<^verbatim>\<open>ERROR:\<close>, \<^verbatim>\<open>WARNING:\<close>, \<^verbatim>\<open>WARN:\<close>, removed together with the white space that
  immediately follows it; without a marker the line is the candidate text.
\<close>

definition stripSeverity :: "string \<Rightarrow> string" where
  "stripSeverity line =
     (if startsWith line ''ERROR:'' then dropWhile isSpace (drop 6 line)
      else if startsWith line ''WARNING:'' then dropWhile isSpace (drop 8 line)
      else if startsWith line ''WARN:'' then dropWhile isSpace (drop 5 line)
      else line)"

text \<open>
  Modelled from the spec: step 5, the location pattern at the head of a text: the word
  \<^verbatim>\<open>line\<close> in any letter case, white space, one or more digits. The result is the
  digits.
\<close>

fun matchLineAt :: "string \<Rightarrow> string option" where
  "matchLineAt (a # b # c # d # e # rest) =
     (if (a = CHR ''l'' \<or> a = CHR ''L'') \<and> (b = CHR ''i'' \<or> b = CHR ''I'') \<and>
         (c = CHR ''n'' \<or> c = CHR ''N'') \<and> (d = CHR ''e'' \<or> d = CHR ''E'') \<and> isSpace e
      then (let ds = takeWhile isDigit (dropWhile isSpace rest)
            in if ds \<noteq> [] then Some ds else None)
      else None)"
| "matchLineAt _ = None"

text \<open>
  Modelled from the spec: step 5, the location is the leftmost occurrence of the pattern
  anywhere in the candidate text, captured as \<^verbatim>\<open>line <N>\<close>.
\<close>

fun findLocation :: "string \<Rightarrow> string option" where
  "findLocation [] = None"
| "findLocation (c # cs) =
     (case matchLineAt (c # cs) of
        Some ds \<Rightarrow> Some (''line '' @ ds)
      | None \<Rightarrow> findLocation cs)"

text \<open>
  Modelled from the spec: step 5, the code: one or more uppercase ASCII letters immediately
  followed by one or more digits, at the start of the text. The code, a colon after it when
  there is one, and the white space that follows are removed from the message. The result
  is the code and the message; without a code the message is the text.
\<close>

definition extractCode :: "string \<Rightarrow> string option \<times> string" where
  "extractCode s =
     (let us = takeWhile isUpper s;
          r1 = dropWhile isUpper s;
          ds = takeWhile isDigit r1;
          r2 = dropWhile isDigit r1
      in if us \<noteq> [] \<and> ds \<noteq> []
         then (Some (us @ ds),
               dropWhile isSpace
                 (case r2 of [] \<Rightarrow> [] | c # r3 \<Rightarrow> if c = CHR 0x3A then r3 else c # r3))
         else (None, s))"

text \<open>
  Modelled from the spec: steps 2 to 6 for one line. \<open>None\<close> is a line that is skipped:
  a blank line or a noise line. The specification is not consistent about a line whose
  message comes out empty (a severity marker or a code alone): section 3 says a message is
  never empty, and the algorithm of section 4.1 has no step that skips such a line. The
  model follows the algorithm; no theorem below states what such a line yields.
\<close>

definition parseLine :: "string \<Rightarrow> Diagnostic option" where
  "parseLine rawLine =
     (let line = trim rawLine in
      if line = [] then None
      else if isNoise line then None
      else
        let cand = stripSeverity line;
            loc = findLocation cand;
            cm = extractCode cand
        in Some \<lparr>message = snd cm, code = fst cm, location = loc\<rparr>)"

text \<open>
  Modelled from the spec: step 7, a Diagnostic is appended unless its message equals that
  of the last Diagnostic kept.
\<close>

definition pushDiag :: "Diagnostic list \<Rightarrow> Diagnostic \<Rightarrow> Diagnostic list" where
  "pushDiag kept d =
     (if kept \<noteq> [] \<and> message (last kept) = message d then kept else kept @ [d])"

text \<open>Modelled from the spec: steps 2 to 7 for one line and the sequence kept so far.\<close>

definition lineStep :: "Diagnostic list \<Rightarrow> string \<Rightarrow> Diagnostic list" where
  "lineStep kept rawLine =
     (case parseLine rawLine of None \<Rightarrow> kept | Some d \<Rightarrow> pushDiag kept d)"

text \<open>
  Modelled from the spec: the single pass over the lines in input order, starting from the
  empty sequence.
\<close>

definition processLines :: "string list \<Rightarrow> Diagnostic list" where
  "processLines ls = foldl lineStep [] ls"

text \<open>Modelled from the spec: step 8, the fallback Diagnostic.\<close>

definition fallbackDiag :: "string \<Rightarrow> Diagnostic" where
  "fallbackDiag trimmed = \<lparr>message = trimmed, code = None, location = None\<rparr>"

text \<open>
  Modelled from the spec: the contract \<^verbatim>\<open>parse(rawText, isErrorStream)\<close> of section 4.1,
  under the name the tests import. The flag is accepted and not consulted.
\<close>

definition parseBinaryOutput :: "string \<Rightarrow> bool \<Rightarrow> Diagnostic list" where
  "parseBinaryOutput rawText isErrorStream =
     (let ds = processLines (splitLines rawText) in
      if ds = [] \<and> trim rawText \<noteq> [] then [fallbackDiag (trim rawText)] else ds)"

section \<open>Vocabulary of the claims\<close>

text \<open>The check identifier and the severity of a finding, which are what the claims compare.\<close>

definition idSev :: "SecurityAuditFinding \<Rightarrow> string \<times> Severity" where
  "idSev f = (checkId f, severity f)"

text \<open>\<^verbatim>\<open>opts?.dockerEnabled\<close> is truthy.\<close>

definition dockerOn :: "ExpansoSandboxOptions option \<Rightarrow> bool" where
  "dockerOn opts = (case opts of None \<Rightarrow> False | Some o' \<Rightarrow> dockerEnabled o' = Some True)"

text \<open>The four isolation settings all pass.\<close>

definition allIsolated :: "ExpansoSandboxOptions \<Rightarrow> bool" where
  "allIsolated o' =
     (networkMode o' = Some ''none'' \<and> readOnlyRootfs o' = Some True \<and>
      capsDropped o' = Some True \<and> nonRootUser o' = Some True)"

text \<open>The findings expected for the failed checks, in the order of the checks.\<close>

definition failedChecks :: "ExpansoSandboxOptions \<Rightarrow> (string \<times> Severity) list" where
  "failedChecks o' =
     (if networkMode o' \<noteq> Some ''none''
      then [(''expanso.sandbox.network_not_isolated'', Critical)] else []) @
     (if readOnlyRootfs o' \<noteq> Some True
      then [(''expanso.sandbox.no_readonly_rootfs'', Critical)] else []) @
     (if capsDropped o' \<noteq> Some True
      then [(''expanso.sandbox.caps_not_dropped'', Warn)] else []) @
     (if nonRootUser o' \<noteq> Some True
      then [(''expanso.sandbox.root_user'', Warn)] else [])"


text \<open>The word \<^verbatim>\<open>line\<close> in any letter case.\<close>

definition isLineWord :: "string \<Rightarrow> bool" where
  "isLineWord w =
     (case w of
        [a, b, c, d] \<Rightarrow>
          (a = CHR ''l'' \<or> a = CHR ''L'') \<and> (b = CHR ''i'' \<or> b = CHR ''I'') \<and>
          (c = CHR ''n'' \<or> c = CHR ''N'') \<and> (d = CHR ''e'' \<or> d = CHR ''E'')
      | _ \<Rightarrow> False)"

text \<open>
  The text begins with the location pattern: the word \<^verbatim>\<open>line\<close> in any letter case, at
  least one white-space character, then a digit.
\<close>

definition startsPhrase :: "string \<Rightarrow> bool" where
  "startsPhrase s =
     (isLineWord (take 4 s) \<and>
      (case drop 4 s of
         [] \<Rightarrow> False
       | e # r \<Rightarrow>
           isSpace e \<and> (case dropWhile isSpace r of [] \<Rightarrow> False | x # _ \<Rightarrow> isDigit x)))"


section \<open>Strings: basic facts\<close>

lemma startsWith_append: "startsWith (p @ b) p"
  by (induction p) auto

lemma includesStr_suffix: "includesStr s p \<Longrightarrow> includesStr (a @ s) p"
  by (induction a) auto

lemma includesStr_infix: "includesStr (a @ p @ b) p"
proof -
  have "includesStr (p @ b) p"
    by (cases "p @ b") (auto simp: startsWith_append dest: sym)
  then show ?thesis by (rule includesStr_suffix)
qed

lemma trim_Nil_iff: "trim s = [] \<longleftrightarrow> (\<forall>c \<in> set s. isSpace c)"
proof
  assume "trim s = []"
  then have "dropWhile isSpace (rev (dropWhile isSpace s)) = []" by (simp add: trim_def)
  then have a: "\<forall>c \<in> set (dropWhile isSpace s). isSpace c" by simp
  show "\<forall>c \<in> set s. isSpace c"
  proof (rule ccontr)
    assume "\<not> (\<forall>c \<in> set s. isSpace c)"
    then have ne: "dropWhile isSpace s \<noteq> []" by simp
    then have "\<not> isSpace (hd (dropWhile isSpace s))" by (rule hd_dropWhile)
    moreover have "hd (dropWhile isSpace s) \<in> set (dropWhile isSpace s)"
      using ne by simp
    ultimately show False using a by blast
  qed
next
  assume "\<forall>c \<in> set s. isSpace c"
  then have d: "dropWhile isSpace s = []" by simp
  show "trim s = []" unfolding trim_def d by simp
qed

section \<open>Fix button: construction and detection\<close>

text \<open>
  Claim C10. The row built by \<open>buildExpansoFixTelegramButton\<close> has one button, and
  \<open>isExpansoFixTelegramCallback\<close> accepts its callback data; the detector is true exactly
  when its argument trims to \<^verbatim>\<open>expanso_fix\<close>; and for either platform and any user name
  and user id, \<open>isExpansoFixDiscordEvent\<close> accepts the text built by
  \<open>buildExpansoFixEventText\<close>.
\<close>

theorem fix_button_roundtrip:
  "length buildExpansoFixTelegramButton = 1 \<and>
   isExpansoFixTelegramCallback (callback_data (hd buildExpansoFixTelegramButton)) \<and>
   isExpansoFixTelegramCallback d = (trim d = ''expanso_fix'') \<and>
   isExpansoFixDiscordEvent (buildExpansoFixEventText p u i)"
proof -
  have t: "trim ''expanso_fix'' = ''expanso_fix''"
    by (simp add: trim_def isSpace_def)
  have e: "buildExpansoFixEventText p u i =
      (''['' @ (if p = Discord then ''Discord'' else ''Telegram'') @ '' '') @
      ''component: expanso-fix clicked'' @ ('' by '' @ u @ '' ('' @ i @ '')]'')"
    by (simp add: buildExpansoFixEventText_def EXPANSO_FIX_COMPONENT_ID_def)
  have d: "isExpansoFixDiscordEvent (buildExpansoFixEventText p u i)"
    unfolding isExpansoFixDiscordEvent_def e EXPANSO_FIX_COMPONENT_ID_def
    using includesStr_infix [of _ "''component: expanso-fix clicked''"] by simp
  show ?thesis
    using t d
    by (simp add: buildExpansoFixTelegramButton_def isExpansoFixTelegramCallback_def
        EXPANSO_FIX_CALLBACK_DATA_def)
qed

section \<open>Sandbox findings\<close>

lemma idSev_simps:
  "idSev dockerDisabledFinding = (''expanso.sandbox.docker_disabled'', Warn)"
  "idSev (networkFinding m) = (''expanso.sandbox.network_not_isolated'', Critical)"
  "idSev rootfsFinding = (''expanso.sandbox.no_readonly_rootfs'', Critical)"
  "idSev capsFinding = (''expanso.sandbox.caps_not_dropped'', Warn)"
  "idSev rootUserFinding = (''expanso.sandbox.root_user'', Warn)"
  "idSev (isolatedFinding im) = (''expanso.sandbox.isolated'', Info)"
  by (simp_all add: idSev_def dockerDisabledFinding_def networkFinding_def rootfsFinding_def
      capsFinding_def rootUserFinding_def isolatedFinding_def Let_def)

lemma collect_idSev:
  "map idSev (collectExpansoSandboxFindings opts) =
     (case opts of None \<Rightarrow> [(''expanso.sandbox.docker_disabled'', Warn)]
      | Some o' \<Rightarrow>
         if dockerEnabled o' \<noteq> Some True then [(''expanso.sandbox.docker_disabled'', Warn)]
         else if allIsolated o' then [(''expanso.sandbox.isolated'', Info)]
         else failedChecks o')"
  by (simp add: collectExpansoSandboxFindings_def truthyB_def Let_def idSev_simps
      allIsolated_def failedChecks_def split: option.splits)

text \<open>
  Claim C9. \<open>collectExpansoSandboxFindings\<close> never returns the empty array. With
  \<^verbatim>\<open>dockerEnabled\<close> falsy (or no options at all) the result is the one warn finding
  \<^verbatim>\<open>expanso.sandbox.docker_disabled\<close>; with Docker enabled, network mode \<^verbatim>\<open>none\<close> and the
  three flags true, it is the one info finding \<^verbatim>\<open>expanso.sandbox.isolated\<close>; otherwise it
  is the findings of the failed checks, in order, and none of them is an info finding.
\<close>

theorem sandbox_findings_cases:
  "collectExpansoSandboxFindings opts \<noteq> [] \<and>
   (\<not> dockerOn opts \<longrightarrow>
      map idSev (collectExpansoSandboxFindings opts) =
        [(''expanso.sandbox.docker_disabled'', Warn)]) \<and>
   (opts = Some o' \<and> dockerOn opts \<and> allIsolated o' \<longrightarrow>
      map idSev (collectExpansoSandboxFindings opts) = [(''expanso.sandbox.isolated'', Info)]) \<and>
   (opts = Some o' \<and> dockerOn opts \<and> \<not> allIsolated o' \<longrightarrow>
      map idSev (collectExpansoSandboxFindings opts) = failedChecks o' \<and>
      Info \<notin> severity ` set (collectExpansoSandboxFindings opts))"
proof -
  have ne: "collectExpansoSandboxFindings opts \<noteq> []"
    by (simp add: collectExpansoSandboxFindings_def Let_def split: option.splits)
  have sev: "severity ` set (collectExpansoSandboxFindings opts) =
      snd ` set (map idSev (collectExpansoSandboxFindings opts))"
    by (force simp: idSev_def)
  have noinfo: "Info \<notin> snd ` set (failedChecks x)" for x
    by (auto simp: failedChecks_def)
  show ?thesis
    using ne noinfo unfolding sev collect_idSev
    by (auto simp: dockerOn_def split: option.splits)
qed

theorem sandbox_findings_cases_witness:
  "map idSev (collectExpansoSandboxFindings None) =
     [(''expanso.sandbox.docker_disabled'', Warn)] \<and>
   map idSev (collectExpansoSandboxFindings (Some \<lparr>dockerEnabled = Some True,
      dockerImage = None, networkMode = Some ''none'', readOnlyRootfs = Some True,
      capsDropped = Some True, nonRootUser = Some True\<rparr>)) =
     [(''expanso.sandbox.isolated'', Info)] \<and>
   map idSev (collectExpansoSandboxFindings (Some \<lparr>dockerEnabled = Some True,
      dockerImage = None, networkMode = Some ''host'', readOnlyRootfs = Some True,
      capsDropped = None, nonRootUser = Some True\<rparr>)) =
     [(''expanso.sandbox.network_not_isolated'', Critical),
      (''expanso.sandbox.caps_not_dropped'', Warn)]"
proof -
  let ?good = "\<lparr>dockerEnabled = Some True, dockerImage = None,
      networkMode = Some ''none'', readOnlyRootfs = Some True, capsDropped = Some True,
      nonRootUser = Some True\<rparr>"
  let ?bad = "\<lparr>dockerEnabled = Some True, dockerImage = None,
      networkMode = Some ''host'', readOnlyRootfs = Some True, capsDropped = None,
      nonRootUser = Some True\<rparr>"
  show ?thesis
    using sandbox_findings_cases [of None ?good]
      sandbox_findings_cases [of "Some ?good" ?good]
      sandbox_findings_cases [of "Some ?bad" ?bad]
    by (simp add: dockerOn_def allIsolated_def failedChecks_def)
qed

section \<open>Parser: lines and the single pass\<close>

text \<open>
  The model agrees with the expectations of the repository's tests of
  \<^verbatim>\<open>parseBinaryOutput\<close> (the \<^verbatim>\<open>describe("parseBinaryOutput")\<close> block of the validator's
  test file).
\<close>

lemma model_agrees_with_tests:
  "parseBinaryOutput [] True = []"
  "parseBinaryOutput ''   '' True = []"
  "map message (parseBinaryOutput ''unexpected key in mapping'' True) =
     [''unexpected key in mapping'']"
  "map message (parseBinaryOutput ''ERROR: missing required field'' True) =
     [''missing required field'']"
  "map message (parseBinaryOutput ''WARN: deprecated option used'' False) =
     [''deprecated option used'']"
  "map message (parseBinaryOutput ''WARNING: large batch size'' False) = [''large batch size'']"
  "map message (parseBinaryOutput
      (''INFO Starting validation'' @ [CHR 0x0A] @ ''ERROR: bad config'') True) = [''bad config'']"
  "map message (parseBinaryOutput
      (''DEBUG loading config'' @ [CHR 0x0A] @ ''ERROR: bad field'') True) = [''bad field'']"
  "map location (parseBinaryOutput ''parse error at line 42'' True) = [Some ''line 42'']"
  "length (parseBinaryOutput
      (''ERROR: missing inputs'' @ [CHR 0x0A] @ ''ERROR: missing outputs'') True) = 2"
  "length (parseBinaryOutput
      (''ERROR: same error'' @ [CHR 0x0A] @ ''ERROR: same error'') True) = 1"
  "map message (parseBinaryOutput ''some unparseable binary garbage output'' True) =
     [''some unparseable binary garbage output'']"
  "map code (parseBinaryOutput ''E001: schema violation'' True) = [Some ''E001'']"
  by code_simp+

lemma set_splitLines: "l \<in> set (splitLines s) \<Longrightarrow> set l \<subseteq> set s"
proof (induction s arbitrary: l)
  case Nil
  then show ?case by simp
next
  case (Cons c cs)
  then show ?case
    by (fastforce split: if_splits list.splits)
qed


lemma parseLine_blank: "trim l = [] \<Longrightarrow> parseLine l = None"
  by (simp add: parseLine_def)

lemma foldl_lineStep_skip:
  "(\<forall>l \<in> set ls. parseLine l = None) \<Longrightarrow> foldl lineStep k ls = k"
  by (induction ls arbitrary: k) (auto simp: lineStep_def)

lemma processLines_blank:
  assumes "trim s = []"
  shows "processLines (splitLines s) = []"
proof -
  have "\<forall>l \<in> set (splitLines s). parseLine l = None"
  proof
    fix l assume "l \<in> set (splitLines s)"
    then have "set l \<subseteq> set s" by (rule set_splitLines)
    with assms have "trim l = []" unfolding trim_Nil_iff by blast
    then show "parseLine l = None" by (rule parseLine_blank)
  qed
  then show ?thesis unfolding processLines_def by (rule foldl_lineStep_skip)
qed

section \<open>Parser: empty input, fallback, stream flag\<close>

text \<open>
  Claim C1. When the trimmed input is empty, \<open>parseBinaryOutput\<close> returns the empty
  sequence. When the trimmed input is not empty and the pass over the lines produced no
  Diagnostic, the result is exactly one Diagnostic, whose message is the whole trimmed
  input.
\<close>

theorem empty_input_and_fallback:
  "(trim rawText = [] \<longrightarrow> parseBinaryOutput rawText isErrorStream = []) \<and>
   (trim rawText \<noteq> [] \<and> processLines (splitLines rawText) = [] \<longrightarrow>
      parseBinaryOutput rawText isErrorStream =
        [\<lparr>message = trim rawText, code = None, location = None\<rparr>])"
  using processLines_blank [of rawText]
  by (auto simp: parseBinaryOutput_def fallbackDiag_def Let_def)

theorem empty_input_and_fallback_witness:
  "parseBinaryOutput '' '' True = [] \<and>
   parseBinaryOutput ''DEBUG boot'' True =
     [\<lparr>message = ''DEBUG boot'', code = None, location = None\<rparr>]"
proof -
  have a: "trim '' '' = []" by (simp add: trim_def isSpace_def)
  have b: "trim ''DEBUG boot'' = ''DEBUG boot''" by (simp add: trim_def isSpace_def)
  have c: "processLines (splitLines ''DEBUG boot'') = []"
    by (simp add: processLines_def lineStep_def parseLine_def b isNoise_def)
  show ?thesis
    using empty_input_and_fallback [of "'' ''" True]
      empty_input_and_fallback [of "''DEBUG boot''" True] c
    by (simp add: a b)
qed

text \<open>
  Claim C6. The stream flag does not influence the result: parsing a text as the error
  stream and parsing it as the warning stream give the same sequence.
\<close>

theorem stream_flag_ignored:
  "parseBinaryOutput rawText True = parseBinaryOutput rawText False"
  by (simp add: parseBinaryOutput_def)

section \<open>Parser: adjacent deduplication\<close>









section \<open>Parser: location and code\<close>




lemma matchLineAt_SomeD:
  "matchLineAt s = Some k \<Longrightarrow>
   \<exists>a b c d e r. s = a # b # c # d # e # r \<and> isLineWord [a, b, c, d] \<and> isSpace e \<and>
      k = takeWhile isDigit (dropWhile isSpace r) \<and> k \<noteq> []"
  by (cases s rule: matchLineAt.cases) (auto simp: isLineWord_def Let_def split: if_splits)










lemma takeWhile_neq_Nil_case:
  "(takeWhile P xs \<noteq> []) = (case xs of [] \<Rightarrow> False | x # _ \<Rightarrow> P x)"
  by (cases xs) auto

lemma matchLineAt_None_iff: "matchLineAt s = None \<longleftrightarrow> \<not> startsPhrase s"
proof (cases s rule: matchLineAt.cases)
  case (1 a b c d e rest)
  have "(matchLineAt s \<noteq> None) =
      (isLineWord [a, b, c, d] \<and> isSpace e \<and> takeWhile isDigit (dropWhile isSpace rest) \<noteq> [])"
    unfolding 1 by (simp add: isLineWord_def Let_def)
  also have "\<dots> = startsPhrase s"
    unfolding 1 startsPhrase_def takeWhile_neq_Nil_case by simp
  finally show ?thesis by blast
qed (simp_all add: startsPhrase_def isLineWord_def)

lemma matchLineAt_Some_iff:
  "matchLineAt s = Some k \<longleftrightarrow>
     startsPhrase s \<and> k = takeWhile isDigit (dropWhile isSpace (drop 5 s))"
proof
  assume a: "matchLineAt s = Some k"
  then have "startsPhrase s" using matchLineAt_None_iff [of s] by auto
  moreover have "k = takeWhile isDigit (dropWhile isSpace (drop 5 s))"
    using matchLineAt_SomeD [OF a] by auto
  ultimately show "startsPhrase s \<and> k = takeWhile isDigit (dropWhile isSpace (drop 5 s))" by simp
next
  assume a: "startsPhrase s \<and> k = takeWhile isDigit (dropWhile isSpace (drop 5 s))"
  then obtain k' where k': "matchLineAt s = Some k'"
    using matchLineAt_None_iff [of s] by auto
  then have "k' = takeWhile isDigit (dropWhile isSpace (drop 5 s))"
    using matchLineAt_SomeD [OF k'] by auto
  then show "matchLineAt s = Some k" using a k' by simp
qed













end
